theory Spec2Isabelle
  imports Complex_Main
begin

section \<open>The pipeline component of \<^verbatim>\<open>pipeline/core/component.py\<close>\<close>

subsection \<open>Declarations imported from \<^verbatim>\<open>..types\<close> and \<^verbatim>\<open>..service.extra\<close>\<close>

text \<open>
  Modelled from the spec: the enumeration \<^verbatim>\<open>ComponentExecutionState\<close> is declared in
  \<^verbatim>\<open>types.py\<close>, which is not among the sources. The spec (section 3) lists its tags:
  \<^verbatim>\<open>NOT_RUN | RUNNING | FINISHED | FAILED\<close>.
\<close>

datatype ComponentExecutionState = NOT_RUN | RUNNING | FINISHED | FAILED

text \<open>\<^verbatim>\<open>value.name\<close>: the name of a member, as Python's \<^verbatim>\<open>Enum\<close> gives it.\<close>

fun state_name :: "ComponentExecutionState \<Rightarrow> string" where
  "state_name NOT_RUN = ''NOT_RUN''"
| "state_name RUNNING = ''RUNNING''"
| "state_name FINISHED = ''FINISHED''"
| "state_name FAILED = ''FAILED''"

text \<open>
  What the component module uses of \<^verbatim>\<open>types.py\<close> and cannot be read from the sources is a
  parameter of the model: the reserved key \<^verbatim>\<open>PIPELINE_STATE_KEY\<close>, and for each member of
  the enumeration its value when that value is a string (\<open>None\<close> when the members are not
  strings, as with \<^verbatim>\<open>auto()\<close> values).
\<close>

record types_decl =
  PIPELINE_STATE_KEY :: string
  state_value :: "ComponentExecutionState \<Rightarrow> string option"

text \<open>
  Modelled from the spec: the stage tag of a handler, \<^verbatim>\<open>BEFORE\<close> or \<^verbatim>\<open>AFTER\<close>
  (section 4.2); \<open>UNDEFINED\<close> stands for every other stage a caller may pass. The tag of a
  global handler (\<^verbatim>\<open>GlobalExtraHandlerType\<close>) likewise, with \<open>GLOBAL_OTHER\<close> for every
  member that is neither.
\<close>

datatype ExtraHandlerType = UNDEFINED | BEFORE | AFTER

fun stage_name :: "ExtraHandlerType \<Rightarrow> string" where
  "stage_name UNDEFINED = ''UNDEFINED''"
| "stage_name BEFORE = ''BEFORE''"
| "stage_name AFTER = ''AFTER''"

datatype GlobalExtraHandlerType = GLOBAL_BEFORE | GLOBAL_AFTER | GLOBAL_OTHER

text \<open>
  Modelled from the spec: the classes \<^verbatim>\<open>BeforeHandler\<close> and \<^verbatim>\<open>AfterHandler\<close> of
  \<^verbatim>\<open>service/extra.py\<close> are not among the sources. A handler is an ordered list of
  callables with a stage tag (section 4.2), each handler owning its list (section 9).
  The type \<open>'f\<close> is the type of the callables.
\<close>

record 'f ExtraHandler =
  "functions" :: "'f list"
  stage :: ExtraHandlerType

definition BeforeHandler :: "'f list \<Rightarrow> 'f ExtraHandler" where
  "BeforeHandler fs = \<lparr>functions = fs, stage = BEFORE\<rparr>"

definition AfterHandler :: "'f list \<Rightarrow> 'f ExtraHandler" where
  "AfterHandler fs = \<lparr>functions = fs, stage = AFTER\<rparr>"

subsection \<open>Python values, exceptions and the store\<close>

text \<open>The keys that reach \<^verbatim>\<open>ComponentExecutionState[...]\<close> and the exceptions raised.\<close>

datatype key = KStr string | KNone | KMember ComponentExecutionState

datatype error = KeyError key | Exception string | TimeoutError | OtherError string

text \<open>
  The dictionary \<^verbatim>\<open>ctx.framework_states[PIPELINE_STATE_KEY]\<close> is a mutable object that
  \<^verbatim>\<open>_get_runtime_info\<close> copies, so dictionaries of this kind live in a store, at
  references. A dictionary maps a path (\<^verbatim>\<open>self.path\<close>, which may be \<^verbatim>\<open>None\<close>) to the name
  of a state. \<open>next_ref\<close> is the first reference not yet allocated.
\<close>

type_synonym ref = nat

type_synonym state_dict = "string option \<rightharpoonup> string"

record memory =
  dict_at :: "ref \<Rightarrow> state_dict"
  next_ref :: ref

record Context =
  framework_states :: "string \<rightharpoonup> ref"

text \<open>The dictionary literal \<^verbatim>\<open>{}\<close>, \<^verbatim>\<open>d[k] = v\<close> and \<^verbatim>\<open>copy.deepcopy(d)\<close>.\<close>

definition new_dict :: "memory \<Rightarrow> ref \<times> memory" where
  "new_dict mem =
     (next_ref mem,
      mem\<lparr>dict_at := (dict_at mem)(next_ref mem := Map.empty), next_ref := Suc (next_ref mem)\<rparr>)"

definition setitem :: "memory \<Rightarrow> ref \<Rightarrow> string option \<Rightarrow> string \<Rightarrow> memory" where
  "setitem mem r k v = mem\<lparr>dict_at := (dict_at mem)(r := (dict_at mem r)(k \<mapsto> v))\<rparr>"

definition deepcopy :: "memory \<Rightarrow> ref \<Rightarrow> ref \<times> memory" where
  "deepcopy mem r =
     (next_ref mem,
      mem\<lparr>dict_at := (dict_at mem)(next_ref mem := dict_at mem r), next_ref := Suc (next_ref mem)\<rparr>)"

text \<open>
  \<^verbatim>\<open>ComponentExecutionState[k]\<close> looks \<open>k\<close> up among the member names. A string is found
  when it is a member's name; \<^verbatim>\<open>None\<close> never is; a member is found only when it is itself
  a string, and then under the name equal to its value.
\<close>

definition lookup_name :: "string \<Rightarrow> ComponentExecutionState option" where
  "lookup_name s = find (\<lambda>m. state_name m = s) [NOT_RUN, RUNNING, FINISHED, FAILED]"

definition ComponentExecutionState_getitem ::
  "types_decl \<Rightarrow> key \<Rightarrow> error + ComponentExecutionState" where
  "ComponentExecutionState_getitem D k =
     (case (case k of KStr s \<Rightarrow> Some s | KNone \<Rightarrow> None | KMember m \<Rightarrow> state_value D m) of
        None \<Rightarrow> Inl (KeyError k)
      | Some s \<Rightarrow> (case lookup_name s of None \<Rightarrow> Inl (KeyError k) | Some m \<Rightarrow> Inr m))"

subsection \<open>\<^verbatim>\<open>PipelineComponent\<close>\<close>

text \<open>
  The attributes \<^verbatim>\<open>__init__\<close> sets. \<open>cls_name\<close> is \<^verbatim>\<open>type(self).__name__\<close>, the name of the
  concrete subclass; \<open>'a\<close> is the type of the actor.
\<close>

record ('f, 'a) PipelineComponent =
  cls_name :: string
  timeout :: "real option"
  requested_async_flag :: "bool option"
  calculated_async_flag :: bool
  start_condition :: "Context \<Rightarrow> memory \<Rightarrow> 'a \<Rightarrow> bool"
  name :: "string option"
  path :: "string option"
  before_handler :: "'f ExtraHandler"
  after_handler :: "'f ExtraHandler"

text \<open>Modelled from the spec: \<^verbatim>\<open>always_start_condition\<close> of \<^verbatim>\<open>conditions.py\<close>, constant true.\<close>

definition always_start_condition :: "Context \<Rightarrow> memory \<Rightarrow> 'a \<Rightarrow> bool" where
  "always_start_condition ctx mem actor = True"

text \<open>\<^verbatim>\<open>f"{name}"\<close> of an optional string, and the apostrophe of the messages.\<close>

definition fmt :: "string option \<Rightarrow> string" where
  "fmt n = (case n of None \<Rightarrow> ''None'' | Some s \<Rightarrow> s)"

definition apostrophe :: string where
  "apostrophe = [CHR 0x27]"

definition name_message :: "string option \<Rightarrow> string" where
  "name_message n =
     ''User defined service name shouldn'' @ apostrophe @ ''t be blank or contain ''
     @ apostrophe @ ''.'' @ apostrophe @ '' (service: '' @ fmt n @ '')!''"

definition async_message :: "string \<Rightarrow> string option \<Rightarrow> string" where
  "async_message cls n =
     cls @ '' '' @ apostrophe @ fmt n @ apostrophe @ '' can'' @ apostrophe
     @ ''t be asynchronous!''"

definition init ::
  "string \<Rightarrow> 'f list option \<Rightarrow> 'f list option \<Rightarrow> real option \<Rightarrow> bool option \<Rightarrow> bool \<Rightarrow>
   (Context \<Rightarrow> memory \<Rightarrow> 'a \<Rightarrow> bool) option \<Rightarrow> string option \<Rightarrow> string option \<Rightarrow>
   error + ('f, 'a) PipelineComponent" where
  "init cls before_builder after_builder t requested calculated condition n p =
     (let self = \<lparr>cls_name = cls,
                  timeout = t,
                  requested_async_flag = requested,
                  calculated_async_flag = calculated,
                  start_condition =
                    (case condition of None \<Rightarrow> always_start_condition | Some c \<Rightarrow> c),
                  name = n,
                  path = p,
                  before_handler = BeforeHandler (case before_builder of None \<Rightarrow> [] | Some b \<Rightarrow> b),
                  after_handler = AfterHandler (case after_builder of None \<Rightarrow> [] | Some b \<Rightarrow> b)\<rparr>
      in if (case n of None \<Rightarrow> False | Some s \<Rightarrow> s = [] \<or> CHR ''.'' \<in> set s)
         then Inl (Exception (name_message n))
         else if \<not> calculated \<and> requested = Some True
         then Inl (Exception (async_message cls n))
         else Inr self)"

definition set_state ::
  "types_decl \<Rightarrow> ('f, 'a) PipelineComponent \<Rightarrow> Context \<Rightarrow> memory \<Rightarrow> ComponentExecutionState \<Rightarrow>
   Context \<times> memory" where
  "set_state D self ctx mem v =
     (case framework_states ctx (PIPELINE_STATE_KEY D) of
        None \<Rightarrow>
          (let (r, mem1) = new_dict mem
           in (ctx\<lparr>framework_states := (framework_states ctx)(PIPELINE_STATE_KEY D \<mapsto> r)\<rparr>,
               setitem mem1 r (path self) (state_name v)))
      | Some r \<Rightarrow> (ctx, setitem mem r (path self) (state_name v)))"

definition get_state ::
  "types_decl \<Rightarrow> ('f, 'a) PipelineComponent \<Rightarrow> Context \<Rightarrow> memory \<Rightarrow>
   ComponentExecutionState option \<Rightarrow> error + ComponentExecutionState" where
  "get_state D self ctx mem dflt =
     (case framework_states ctx (PIPELINE_STATE_KEY D) of
        None \<Rightarrow> Inl (KeyError (KStr (PIPELINE_STATE_KEY D)))
      | Some r \<Rightarrow>
          ComponentExecutionState_getitem D
            (case dict_at mem r (path self) of
               Some s \<Rightarrow> KStr s
             | None \<Rightarrow> (case dflt of Some d \<Rightarrow> KMember d | None \<Rightarrow> KNone)))"

definition asynchronous :: "('f, 'a) PipelineComponent \<Rightarrow> bool" where
  "asynchronous self =
     (case requested_async_flag self of
        None \<Rightarrow> calculated_async_flag self
      | Some b \<Rightarrow> b)"

text \<open>
  \<^verbatim>\<open>_get_runtime_info\<close>: the dictionary it returns, as a record. The entry
  \<^verbatim>\<open>"execution_state"\<close> is a reference to the copy that \<^verbatim>\<open>copy.deepcopy\<close> allocates.
\<close>

record ServiceRuntimeInfo =
  info_name :: string
  info_path :: string
  info_timeout :: "real option"
  info_asynchronous :: bool
  info_execution_state :: ref

definition get_runtime_info ::
  "types_decl \<Rightarrow> ('f, 'a) PipelineComponent \<Rightarrow> Context \<Rightarrow> memory \<Rightarrow>
   error + (ServiceRuntimeInfo \<times> memory)" where
  "get_runtime_info D self ctx mem =
     (case framework_states ctx (PIPELINE_STATE_KEY D) of
        None \<Rightarrow> Inl (KeyError (KStr (PIPELINE_STATE_KEY D)))
      | Some r \<Rightarrow>
          (let (r', mem') = deepcopy mem r
           in Inr (\<lparr>info_name = (case name self of Some n \<Rightarrow> n | None \<Rightarrow> ''[None]''),
                     info_path = (case path self of Some p \<Rightarrow> p | None \<Rightarrow> ''[None]''),
                     info_timeout = timeout self,
                     info_asynchronous = asynchronous self,
                     info_execution_state = r'\<rparr>,
                   mem')))"

text \<open>
  \<^verbatim>\<open>run_extra_handler\<close>. What a handler does when it is called and awaited is not in the
  sources, so it is a parameter: \<open>handler_call\<close> gives the exception the awaited call
  raises, or what it returns, which is a plain value or an awaitable; an awaitable is
  described by what awaiting it does (\<open>None\<close>: it completes, \<open>Some e\<close>: it raises
  \<open>e\<close>); what a handler does to the session state is not modelled.
  \<open>handler_asynchronous\<close> is the handler's property \<^verbatim>\<open>asynchronous\<close>. The list
  \<open>warnings\<close> holds the messages given to \<^verbatim>\<open>logger.warning\<close>.
\<close>

datatype handler_result = Plain | Awaitable "error option"

record ('f, 'a) extra_decl =
  handler_asynchronous :: "'f ExtraHandler \<Rightarrow> bool"
  handler_call ::
    "'f ExtraHandler \<Rightarrow> Context \<Rightarrow> memory \<Rightarrow> 'a \<Rightarrow> ServiceRuntimeInfo \<Rightarrow> error + handler_result"

definition timeout_warning :: "('f, 'a) PipelineComponent \<Rightarrow> 'f ExtraHandler \<Rightarrow> string" where
  "timeout_warning self extra_handler =
     cls_name self @ '' '' @ apostrophe @ fmt (name self) @ apostrophe @ '' ''
     @ stage_name (stage extra_handler) @ '' extra handler timed out!''"

text \<open>The clause \<^verbatim>\<open>except asyncio.TimeoutError\<close>: every other exception propagates.\<close>

definition except_timeout ::
  "('f, 'a) PipelineComponent \<Rightarrow> 'f ExtraHandler \<Rightarrow> memory \<Rightarrow> string list \<Rightarrow> error \<Rightarrow>
   error + (memory \<times> string list)" where
  "except_timeout self extra_handler mem warnings e =
     (if e = TimeoutError then Inr (mem, warnings @ [timeout_warning self extra_handler])
      else Inl e)"

definition run_extra_handler ::
  "types_decl \<Rightarrow> ('f, 'a) extra_decl \<Rightarrow> ('f, 'a) PipelineComponent \<Rightarrow> ExtraHandlerType \<Rightarrow>
   Context \<Rightarrow> memory \<Rightarrow> 'a \<Rightarrow> string list \<Rightarrow> error + (memory \<times> string list)" where
  "run_extra_handler D E self stg ctx mem actor warnings =
     (let extra_handler = None;
          extra_handler = (if stg = BEFORE then Some (before_handler self) else extra_handler);
          extra_handler = (if stg = AFTER then Some (after_handler self) else extra_handler)
      in case extra_handler of
           None \<Rightarrow> Inr (mem, warnings)
         | Some h \<Rightarrow>
             (case get_runtime_info D self ctx mem of
                Inl e \<Rightarrow> except_timeout self h mem warnings e
              | Inr (info, mem') \<Rightarrow>
                  (case handler_call E h ctx mem' actor info of
                     Inl e \<Rightarrow> except_timeout self h mem' warnings e
                   | Inr extra_handler_result \<Rightarrow>
                       (if handler_asynchronous E h
                        then (case extra_handler_result of
                                Awaitable (Some e) \<Rightarrow> except_timeout self h mem' warnings e
                              | Awaitable None \<Rightarrow> Inr (mem', warnings)
                              | Plain \<Rightarrow> Inr (mem', warnings))
                        else Inr (mem', warnings)))))"

text \<open>
  \<^verbatim>\<open>__call__\<close>. The abstract method \<^verbatim>\<open>_run\<close> is a parameter; \<open>'r\<close> is the type of what
  running it gives. The asynchronous branch returns the awaitable
  \<^verbatim>\<open>asyncio.wait_for(task, timeout=self.timeout)\<close> over the task
  \<^verbatim>\<open>asyncio.create_task(self._run(ctx, actor))\<close>; the other branch awaits \<^verbatim>\<open>_run\<close> itself
  and returns its result.
\<close>

datatype 'r task = Create_task 'r

datatype 'r call_result = Wait_for "'r task" "real option" | Awaited 'r

definition call ::
  "(('f, 'a) PipelineComponent \<Rightarrow> Context \<Rightarrow> memory \<Rightarrow> 'a option \<Rightarrow> 'r) \<Rightarrow>
   ('f, 'a) PipelineComponent \<Rightarrow> Context \<Rightarrow> memory \<Rightarrow> 'a option \<Rightarrow> 'r call_result" where
  "call run self ctx mem actor =
     (if asynchronous self
      then (let task = Create_task (run self ctx mem actor) in Wait_for task (timeout self))
      else Awaited (run self ctx mem actor))"


subsection \<open>Derived notions used in the statements\<close>

text \<open>The contents of the reserved sub-mapping of a session state, when it exists.\<close>

definition state_mapping :: "types_decl \<Rightarrow> Context \<Rightarrow> memory \<Rightarrow> state_dict option" where
  "state_mapping D ctx mem =
     map_option (dict_at mem) (framework_states ctx (PIPELINE_STATE_KEY D))"

text \<open>A sequence of later writes, each by some component.\<close>

fun set_states ::
  "types_decl \<Rightarrow> (('f, 'a) PipelineComponent \<times> ComponentExecutionState) list \<Rightarrow>
   Context \<Rightarrow> memory \<Rightarrow> Context \<times> memory" where
  "set_states D [] ctx mem = (ctx, mem)"
| "set_states D ((c, v) # ws) ctx mem =
     (case set_state D c ctx mem v of (ctx', mem') \<Rightarrow> set_states D ws ctx' mem')"

text \<open>Every dictionary the session state refers to has been allocated.\<close>

definition allocated :: "Context \<Rightarrow> memory \<Rightarrow> bool" where
  "allocated ctx mem = (\<forall>r \<in> ran (framework_states ctx). r < next_ref mem)"

text \<open>The state name recorded at a path, \<open>None\<close> when there is none.\<close>

definition recorded ::
  "types_decl \<Rightarrow> Context \<Rightarrow> memory \<Rightarrow> string option \<Rightarrow> string option" where
  "recorded D ctx mem p = (case state_mapping D ctx mem of None \<Rightarrow> None | Some d \<Rightarrow> d p)"

text \<open>A name that passes the check of \<^verbatim>\<open>__init__\<close>.\<close>

definition valid_name :: "string option \<Rightarrow> bool" where
  "valid_name n = (case n of None \<Rightarrow> True | Some s \<Rightarrow> s \<noteq> [] \<and> CHR ''.'' \<notin> set s)"

subsection \<open>Concrete inputs\<close>

text \<open>
  Two declarations of the enumeration: members that are strings equal to their names,
  and members that are not strings.
\<close>

definition str_decl :: types_decl where
  "str_decl = \<lparr>PIPELINE_STATE_KEY = ''PIPELINE'', state_value = (\<lambda>m. Some (state_name m))\<rparr>"

definition auto_decl :: types_decl where
  "auto_decl = \<lparr>PIPELINE_STATE_KEY = ''PIPELINE'', state_value = (\<lambda>m. None)\<rparr>"

definition service :: "(nat, unit) PipelineComponent" where
  "service = \<lparr>cls_name = ''Service'', timeout = Some 2, requested_async_flag = None,
     calculated_async_flag = True, start_condition = always_start_condition,
     name = Some ''a'', path = Some ''root.a'',
     before_handler = BeforeHandler [3], after_handler = AfterHandler [7]\<rparr>"

definition sync_service :: "(nat, unit) PipelineComponent" where
  "sync_service = service\<lparr>requested_async_flag := Some False, path := Some ''root.b''\<rparr>"

text \<open>A session state nothing was written to, and one whose sub-mapping exists.\<close>

definition fresh_context :: Context where
  "fresh_context = \<lparr>framework_states = Map.empty\<rparr>"

definition empty_memory :: memory where
  "empty_memory = \<lparr>dict_at = (\<lambda>r. Map.empty), next_ref = 0\<rparr>"

definition running_context :: Context where
  "running_context = \<lparr>framework_states = [''PIPELINE'' \<mapsto> 0]\<rparr>"

definition running_memory :: memory where
  "running_memory =
     \<lparr>dict_at = (\<lambda>r. Map.empty)(0 := [Some ''root.b'' \<mapsto> ''FINISHED'']), next_ref = 1\<rparr>"

text \<open>Handlers whose call times out, whatever the handler.\<close>

definition slow_handlers :: "(nat, unit) extra_decl" where
  "slow_handlers =
     \<lparr>handler_asynchronous = (\<lambda>h. True),
      handler_call = (\<lambda>h ctx mem actor info. Inl TimeoutError)\<rparr>"

section \<open>Properties\<close>

subsection \<open>Lookups by name\<close>

lemma lookup_state_name: "lookup_name (state_name v) = Some v"
  by (cases v) (simp_all add: lookup_name_def)

lemma getitem_name: "ComponentExecutionState_getitem D (KStr (state_name v)) = Inr v"
  by (simp add: ComponentExecutionState_getitem_def lookup_state_name)

lemma set_state_mapping:
  "set_state D self ctx mem v = (ctx', mem') \<Longrightarrow>
   state_mapping D ctx' mem' =
     Some ((case state_mapping D ctx mem of None \<Rightarrow> Map.empty | Some d \<Rightarrow> d)
             (path self \<mapsto> state_name v))"
  by (auto simp: set_state_def state_mapping_def new_dict_def setitem_def
           split: option.splits)

lemma set_state_existing:
  "framework_states ctx (PIPELINE_STATE_KEY D) = Some r \<Longrightarrow>
   set_state D c ctx mem v = (ctx, setitem mem r (path c) (state_name v))"
  by (simp add: set_state_def)

subsection \<open>Reading a state: \<^verbatim>\<open>get_state\<close>\<close>

text \<open>
  Where the sub-mapping exists and holds nothing at the component's path, the default
  goes through the same lookup as a stored name: without a default the lookup of
  \<^verbatim>\<open>None\<close> fails; a default that is a string equal to its name is returned; a default
  that is not a string is not found. A stored string that is no member's name is not
  found either.
\<close>

lemma get_state_no_default:
  "framework_states ctx (PIPELINE_STATE_KEY D) = Some r \<Longrightarrow>
   dict_at mem r (path self) = None \<Longrightarrow>
   get_state D self ctx mem None = Inl (KeyError KNone)"
  by (simp add: get_state_def ComponentExecutionState_getitem_def)

lemma get_state_default_str:
  "framework_states ctx (PIPELINE_STATE_KEY D) = Some r \<Longrightarrow>
   dict_at mem r (path self) = None \<Longrightarrow>
   state_value D d = Some (state_name d) \<Longrightarrow>
   get_state D self ctx mem (Some d) = Inr d"
  by (simp add: get_state_def ComponentExecutionState_getitem_def lookup_state_name)

lemma get_state_default_not_str:
  "framework_states ctx (PIPELINE_STATE_KEY D) = Some r \<Longrightarrow>
   dict_at mem r (path self) = None \<Longrightarrow>
   state_value D d = None \<Longrightarrow>
   get_state D self ctx mem (Some d) = Inl (KeyError (KMember d))"
  by (simp add: get_state_def ComponentExecutionState_getitem_def)

lemma get_state_unrecognized:
  "framework_states ctx (PIPELINE_STATE_KEY D) = Some r \<Longrightarrow>
   dict_at mem r (path self) = Some s \<Longrightarrow>
   lookup_name s = None \<Longrightarrow>
   get_state D self ctx mem dflt = Inl (KeyError (KStr s))"
  by (simp add: get_state_def ComponentExecutionState_getitem_def)

text \<open>
  C1. On a session state that nothing was written to, the reserved sub-mapping does not
  exist, no state is recorded at the component's path, and \<^verbatim>\<open>get_state\<close> called with
  a default, \<^verbatim>\<open>NOT_RUN\<close> or another, does not return it: the subscript
  \<^verbatim>\<open>ctx.framework_states[PIPELINE_STATE_KEY]\<close> raises \<^verbatim>\<open>KeyError\<close>, whatever the
  declaration of the enumeration and whatever the component.
\<close>

theorem get_state_fresh_context:
  "get_state D self fresh_context mem (Some d)
     = Inl (KeyError (KStr (PIPELINE_STATE_KEY D)))"
  by (simp add: get_state_def fresh_context_def)

subsection \<open>The property \<^verbatim>\<open>asynchronous\<close> and the constructor\<close>

text \<open>
  C2. The resolved \<^verbatim>\<open>asynchronous\<close> property of a component equals the requested flag
  whenever that flag is set, to true or to false, and equals the calculated flag when
  the requested flag is unset.
\<close>

theorem asynchronous_resolution:
  "(requested_async_flag self = Some True \<longrightarrow> asynchronous self) \<and>
   (requested_async_flag self = Some False \<longrightarrow> \<not> asynchronous self) \<and>
   (requested_async_flag self = None \<longrightarrow> asynchronous self = calculated_async_flag self)"
  by (simp add: asynchronous_def)

theorem asynchronous_resolution_witness:
  "requested_async_flag sync_service = Some False \<and> \<not> asynchronous sync_service
   \<and> requested_async_flag service = None
   \<and> asynchronous service = calculated_async_flag service"
proof -
  have set: "requested_async_flag sync_service = Some False"
    by (simp add: sync_service_def)
  have unset: "requested_async_flag service = None"
    by (simp add: service_def)
  from asynchronous_resolution [of sync_service] set
  have "\<not> asynchronous sync_service" by simp
  moreover from asynchronous_resolution [of service] unset
  have "asynchronous service = calculated_async_flag service" by simp
  ultimately show ?thesis using set unset by simp
qed

text \<open>
  C3. A construction with a false calculated flag and a true requested flag raises: the
  exception of the asynchrony check when the name is valid, that of the name check
  otherwise. With every other combination of the two flags a construction with a valid
  name returns the component, and the only exception a construction can raise is that of
  the name check.
\<close>

theorem init_async_check:
  "(\<not> calculated \<and> requested = Some True \<longrightarrow>
      isl (init cls bb ab t requested calculated cond n p)
      \<and> (valid_name n \<longrightarrow>
           init cls bb ab t requested calculated cond n p
             = Inl (Exception (async_message cls n))))
   \<and> (\<not> (\<not> calculated \<and> requested = Some True) \<longrightarrow>
      (valid_name n \<longrightarrow> \<not> isl (init cls bb ab t requested calculated cond n p))
      \<and> (\<forall>e. init cls bb ab t requested calculated cond n p = Inl e \<longrightarrow>
               e = Exception (name_message n)))"
  by (auto simp: init_def valid_name_def Let_def split: option.splits)

theorem init_async_check_witness:
  "valid_name (Some ''a'')
   \<and> (init ''Service'' (Some [3]) None (Some 2) (Some True) False None (Some ''a'') None
        :: error + (nat, unit) PipelineComponent)
       = Inl (Exception (async_message ''Service'' (Some ''a'')))
   \<and> \<not> isl (init ''Service'' (Some [3]) None (Some 2) (Some True) True None (Some ''a'') None
        :: error + (nat, unit) PipelineComponent)
   \<and> \<not> isl (init ''Service'' (Some [3]) None (Some 2) None False None (Some ''a'') None
        :: error + (nat, unit) PipelineComponent)"
proof -
  have v: "valid_name (Some ''a'')"
    by (simp add: valid_name_def)
  from v init_async_check [of False "Some True" "''Service''" "Some [3::nat]" None "Some 2"
      "None :: (Context \<Rightarrow> memory \<Rightarrow> unit \<Rightarrow> bool) option" "Some ''a''" None]
  have 1: "(init ''Service'' (Some [3]) None (Some 2) (Some True) False None (Some ''a'') None
        :: error + (nat, unit) PipelineComponent)
       = Inl (Exception (async_message ''Service'' (Some ''a'')))"
    by simp
  from v init_async_check [of True "Some True" "''Service''" "Some [3::nat]" None "Some 2"
      "None :: (Context \<Rightarrow> memory \<Rightarrow> unit \<Rightarrow> bool) option" "Some ''a''" None]
  have 2: "\<not> isl (init ''Service'' (Some [3]) None (Some 2) (Some True) True None (Some ''a'') None
        :: error + (nat, unit) PipelineComponent)"
    by simp
  from v init_async_check [of False None "''Service''" "Some [3::nat]" None "Some 2"
      "None :: (Context \<Rightarrow> memory \<Rightarrow> unit \<Rightarrow> bool) option" "Some ''a''" None]
  have 3: "\<not> isl (init ''Service'' (Some [3]) None (Some 2) None False None (Some ''a'') None
        :: error + (nat, unit) PipelineComponent)"
    by simp
  from v 1 2 3 show ?thesis by simp
qed

text \<open>
  C4. A construction with a name that is empty or contains \<^verbatim>\<open>'.'\<close> raises the
  exception of the name check, whatever the other arguments; a construction with a name
  that is neither, and flags that pass the asynchrony check, returns a component whose
  name is the one given.
\<close>

theorem init_name_check:
  "(s = [] \<or> CHR ''.'' \<in> set s \<longrightarrow>
      init cls bb ab t requested calculated cond (Some s) p
        = Inl (Exception (name_message (Some s))))
   \<and> (s \<noteq> [] \<and> CHR ''.'' \<notin> set s \<and> (calculated \<or> requested \<noteq> Some True) \<longrightarrow>
      (\<exists>self. init cls bb ab t requested calculated cond (Some s) p = Inr self
               \<and> name self = Some s))"
  by (auto simp: init_def Let_def)

theorem init_name_check_witness:
  "(init ''Service'' None None None None False None (Some ''a.b'') (Some ''root.a.b'')
      :: error + (nat, unit) PipelineComponent)
     = Inl (Exception (name_message (Some ''a.b'')))
   \<and> (init ''Service'' None None None None False None (Some []) None
      :: error + (nat, unit) PipelineComponent)
     = Inl (Exception (name_message (Some [])))
   \<and> (\<exists>self. (init ''Service'' None None None None False None (Some ''a'') (Some ''root.a'')
                :: error + (nat, unit) PipelineComponent) = Inr self
              \<and> name self = Some ''a'')"
proof -
  from init_name_check [of "''a.b''" "''Service''" "None :: nat list option" None None None
      False "None :: (Context \<Rightarrow> memory \<Rightarrow> unit \<Rightarrow> bool) option" "Some ''root.a.b''"]
  have 1: "(init ''Service'' None None None None False None (Some ''a.b'') (Some ''root.a.b'')
      :: error + (nat, unit) PipelineComponent)
     = Inl (Exception (name_message (Some ''a.b'')))"
    by simp
  from init_name_check [of "[]" "''Service''" "None :: nat list option" None None None
      False "None :: (Context \<Rightarrow> memory \<Rightarrow> unit \<Rightarrow> bool) option" None]
  have 2: "(init ''Service'' None None None None False None (Some []) None
      :: error + (nat, unit) PipelineComponent)
     = Inl (Exception (name_message (Some [])))"
    by simp
  from init_name_check [of "''a''" "''Service''" "None :: nat list option" None None None
      False "None :: (Context \<Rightarrow> memory \<Rightarrow> unit \<Rightarrow> bool) option" "Some ''root.a''"]
  have 3: "\<exists>self. (init ''Service'' None None None None False None (Some ''a'') (Some ''root.a'')
                :: error + (nat, unit) PipelineComponent) = Inr self
              \<and> name self = Some ''a''"
    by simp
  from 1 2 3 show ?thesis by simp
qed

subsection \<open>Writing a state: \<^verbatim>\<open>_set_state\<close>\<close>

text \<open>
  C5. \<^verbatim>\<open>_set_state\<close> always leaves the reserved sub-mapping in place, holding what it
  held before (nothing when it did not exist) with the name of the given state at the
  component's path. It creates the sub-mapping exactly when it does not exist yet: then
  a new dictionary is allocated and stored under the reserved key; otherwise the session
  state keeps the dictionary it has and nothing is allocated.
\<close>

theorem set_state_writes:
  assumes "set_state D self ctx mem v = (ctx', mem')"
  shows "state_mapping D ctx' mem' =
           Some ((case state_mapping D ctx mem of None \<Rightarrow> Map.empty | Some d \<Rightarrow> d)
                   (path self \<mapsto> state_name v))
         \<and> (if state_mapping D ctx mem = None
            then framework_states ctx' =
                   (framework_states ctx)(PIPELINE_STATE_KEY D \<mapsto> next_ref mem)
                 \<and> next_ref mem' = Suc (next_ref mem)
            else ctx' = ctx \<and> next_ref mem' = next_ref mem)"
  using assms
  by (auto simp: set_state_def state_mapping_def new_dict_def setitem_def
           split: option.splits)

theorem set_state_writes_witness:
  "state_mapping str_decl
     (fst (set_state str_decl service fresh_context empty_memory RUNNING))
     (snd (set_state str_decl service fresh_context empty_memory RUNNING))
     = Some [Some ''root.a'' \<mapsto> ''RUNNING'']
   \<and> next_ref (snd (set_state str_decl service fresh_context empty_memory RUNNING)) = 1
   \<and> state_mapping str_decl
     (fst (set_state str_decl service running_context running_memory RUNNING))
     (snd (set_state str_decl service running_context running_memory RUNNING))
     = Some [Some ''root.b'' \<mapsto> ''FINISHED'', Some ''root.a'' \<mapsto> ''RUNNING'']
   \<and> fst (set_state str_decl service running_context running_memory RUNNING)
     = running_context"
proof -
  let ?new = "set_state str_decl service fresh_context empty_memory RUNNING"
  let ?old = "set_state str_decl service running_context running_memory RUNNING"
  have none: "state_mapping str_decl fresh_context empty_memory = None"
    by (simp add: state_mapping_def fresh_context_def)
  have some: "state_mapping str_decl running_context running_memory
                = Some [Some ''root.b'' \<mapsto> ''FINISHED'']"
    by (simp add: state_mapping_def running_context_def running_memory_def str_decl_def)
  have p: "path service = Some ''root.a''"
    by (simp add: service_def)
  have "?new = (fst ?new, snd ?new)" by simp
  from set_state_writes [OF this]
  have 1: "state_mapping str_decl (fst ?new) (snd ?new) = Some [Some ''root.a'' \<mapsto> ''RUNNING'']"
    and "next_ref (snd ?new) = Suc (next_ref empty_memory)"
    by (simp_all add: none p)
  then have 2: "next_ref (snd ?new) = 1"
    by (simp add: empty_memory_def)
  have "?old = (fst ?old, snd ?old)" by simp
  note kept = set_state_writes [OF this]
  from kept [THEN conjunct1]
  have 3: "state_mapping str_decl (fst ?old) (snd ?old)
             = Some [Some ''root.b'' \<mapsto> ''FINISHED'', Some ''root.a'' \<mapsto> ''RUNNING'']"
    by (simp add: some p)
  from kept [THEN conjunct2]
  have 4: "fst ?old = running_context"
    by (simp add: some)
  from 1 2 3 4 show ?thesis by simp
qed

text \<open>
  C10. After \<^verbatim>\<open>_set_state\<close> with a state \<open>v\<close>, \<^verbatim>\<open>get_state\<close> of the same component
  returns \<open>v\<close> whatever the default and whatever the declaration of the enumeration: the
  name stored is looked up among the member names. What is recorded at every other path
  is what was recorded there before the write.
\<close>

theorem set_then_get_state:
  assumes "set_state D self ctx mem v = (ctx', mem')"
  shows "get_state D self ctx' mem' dflt = Inr v
         \<and> (\<forall>p. p \<noteq> path self \<longrightarrow> recorded D ctx' mem' p = recorded D ctx mem p)"
proof -
  let ?before = "case state_mapping D ctx mem of None \<Rightarrow> Map.empty | Some d \<Rightarrow> d"
  from set_state_mapping [OF assms]
  have m: "state_mapping D ctx' mem' = Some (?before(path self \<mapsto> state_name v))" .
  then obtain r where r: "framework_states ctx' (PIPELINE_STATE_KEY D) = Some r"
    and d: "dict_at mem' r = ?before(path self \<mapsto> state_name v)"
    by (auto simp: state_mapping_def)
  have "get_state D self ctx' mem' dflt = Inr v"
    by (simp add: get_state_def r d getitem_name)
  moreover have "\<forall>p. p \<noteq> path self \<longrightarrow> recorded D ctx' mem' p = recorded D ctx mem p"
    by (simp add: recorded_def m split: option.splits)
  ultimately show ?thesis by simp
qed

theorem set_then_get_state_witness:
  "get_state auto_decl service
     (fst (set_state auto_decl service running_context running_memory FAILED))
     (snd (set_state auto_decl service running_context running_memory FAILED))
     (Some NOT_RUN) = Inr FAILED
   \<and> recorded auto_decl
     (fst (set_state auto_decl service running_context running_memory FAILED))
     (snd (set_state auto_decl service running_context running_memory FAILED))
     (Some ''root.b'') = Some ''FINISHED''"
proof -
  let ?s = "set_state auto_decl service running_context running_memory FAILED"
  have "?s = (fst ?s, snd ?s)" by simp
  from set_then_get_state [OF this, of "Some NOT_RUN"]
  have get: "get_state auto_decl service (fst ?s) (snd ?s) (Some NOT_RUN) = Inr FAILED"
    and others: "\<forall>p. p \<noteq> path service \<longrightarrow>
          recorded auto_decl (fst ?s) (snd ?s) p
            = recorded auto_decl running_context running_memory p"
    by simp_all
  have "Some ''root.b'' \<noteq> path service"
    by (simp add: service_def)
  with others have "recorded auto_decl (fst ?s) (snd ?s) (Some ''root.b'')
      = recorded auto_decl running_context running_memory (Some ''root.b'')"
    by blast
  also have "\<dots> = Some ''FINISHED''"
    by (simp add: recorded_def state_mapping_def running_context_def running_memory_def
          auto_decl_def)
  finally show ?thesis using get by simp
qed

subsection \<open>The call envelope: \<^verbatim>\<open>__call__\<close>\<close>

text \<open>
  C6. When the resolved \<^verbatim>\<open>asynchronous\<close> property is true, the call returns
  \<^verbatim>\<open>asyncio.wait_for\<close> over a task created from \<^verbatim>\<open>_run\<close>, with the component's
  timeout. When it is false, the call awaits \<^verbatim>\<open>_run\<close> itself and returns its result,
  and it does so whatever the timeout field holds: the envelope never reads it.
\<close>

theorem call_envelope:
  "(asynchronous self \<longrightarrow>
      call run self ctx mem actor
        = Wait_for (Create_task (run self ctx mem actor)) (timeout self))
   \<and> (\<not> asynchronous self \<longrightarrow>
      (\<forall>t. call run (self\<lparr>timeout := t\<rparr>) ctx mem actor
             = Awaited (run (self\<lparr>timeout := t\<rparr>) ctx mem actor)))"
  by (simp add: call_def asynchronous_def Let_def split: option.splits)

theorem call_envelope_witness:
  "asynchronous service
   \<and> call (\<lambda>self ctx mem actor. path self) service running_context running_memory None
       = Wait_for (Create_task (Some ''root.a'')) (Some 2)
   \<and> \<not> asynchronous sync_service
   \<and> call (\<lambda>self ctx mem actor. path self) (sync_service\<lparr>timeout := Some 5\<rparr>)
         running_context running_memory None
       = Awaited (Some ''root.b'')"
proof -
  have a: "asynchronous service"
    by (simp add: asynchronous_def service_def)
  have s: "\<not> asynchronous sync_service"
    by (simp add: asynchronous_def sync_service_def)
  from a call_envelope [of service "\<lambda>self ctx mem actor. path self"
      running_context running_memory None]
  have 1: "call (\<lambda>self ctx mem actor. path self) service running_context running_memory None
       = Wait_for (Create_task (Some ''root.a'')) (Some 2)"
    by (simp add: service_def)
  from s call_envelope [of sync_service "\<lambda>self ctx mem actor. path self"
      running_context running_memory None]
  have "call (\<lambda>self ctx mem actor. path self) (sync_service\<lparr>timeout := Some 5\<rparr>)
         running_context running_memory None
       = Awaited (path (sync_service\<lparr>timeout := Some 5\<rparr>))"
    by simp
  then have 2: "call (\<lambda>self ctx mem actor. path self) (sync_service\<lparr>timeout := Some 5\<rparr>)
         running_context running_memory None
       = Awaited (Some ''root.b'')"
    by (simp add: sync_service_def)
  from a s 1 2 show ?thesis by simp
qed

subsection \<open>Extra handlers\<close>

text \<open>
  C7. Let a before or after handler be invoked, which is the case once the runtime info
  has been built, and let the invocation time out: the awaited call raises
  \<^verbatim>\<open>asyncio.TimeoutError\<close>, or the handler is asynchronous and the awaitable it returned
  raises it. Then \<^verbatim>\<open>run_extra_handler\<close> returns normally, having given one warning to
  the logger.
\<close>

theorem extra_handler_timeout_is_not_fatal:
  assumes "stg = BEFORE \<and> h = before_handler self \<or> stg = AFTER \<and> h = after_handler self"
      and "get_runtime_info D self ctx mem = Inr (info, mem')"
      and "handler_call E h ctx mem' actor info = Inl TimeoutError
           \<or> (handler_asynchronous E h
              \<and> handler_call E h ctx mem' actor info = Inr (Awaitable (Some TimeoutError)))"
  shows "run_extra_handler D E self stg ctx mem actor warnings
           = Inr (mem', warnings @ [timeout_warning self h])"
  using assms
  by (auto simp: run_extra_handler_def except_timeout_def Let_def)

theorem extra_handler_timeout_is_not_fatal_witness:
  "map_sum id snd
     (run_extra_handler str_decl slow_handlers service AFTER running_context running_memory
        () [])
   = Inr [timeout_warning service (AfterHandler [7])]"
proof -
  let ?i = "get_runtime_info str_decl service running_context running_memory"
  have h: "AFTER = BEFORE \<and> AfterHandler [7] = before_handler service
           \<or> AFTER = AFTER \<and> AfterHandler [7] = after_handler service"
    by (simp add: service_def)
  have i: "?i = Inr (fst (projr ?i), snd (projr ?i))"
    by (simp add: get_runtime_info_def running_context_def str_decl_def deepcopy_def)
  have t: "handler_call slow_handlers (AfterHandler [7]) running_context (snd (projr ?i)) ()
             (fst (projr ?i)) = Inl TimeoutError
           \<or> (handler_asynchronous slow_handlers (AfterHandler [7])
              \<and> handler_call slow_handlers (AfterHandler [7]) running_context (snd (projr ?i)) ()
                  (fst (projr ?i)) = Inr (Awaitable (Some TimeoutError)))"
    by (simp add: slow_handlers_def)
  from extra_handler_timeout_is_not_fatal [OF h i t, of "[]"]
  show ?thesis by simp
qed


subsection \<open>The runtime info: \<^verbatim>\<open>_get_runtime_info\<close>\<close>

text \<open>
  Every reference a session state holds is below \<open>next_ref\<close>: this holds of a session
  state nothing was written to, and the operations keep it.
\<close>

lemma allocated_fresh: "allocated fresh_context mem"
  by (simp add: allocated_def fresh_context_def)

lemma allocated_set_state:
  "allocated ctx mem \<Longrightarrow> set_state D c ctx mem v = (ctx', mem') \<Longrightarrow> allocated ctx' mem'"
  by (fastforce simp: allocated_def set_state_def new_dict_def setitem_def ran_def
        intro: less_SucI split: option.splits if_splits)

lemma allocated_get_runtime_info:
  "allocated ctx mem \<Longrightarrow> get_runtime_info D c ctx mem = Inr (info, mem') \<Longrightarrow>
   allocated ctx mem'"
  by (auto simp: allocated_def get_runtime_info_def deepcopy_def split: option.splits)

lemma allocated_ref:
  "allocated ctx mem \<Longrightarrow> framework_states ctx k = Some r \<Longrightarrow> r < next_ref mem"
  by (auto simp: allocated_def ran_def)

text \<open>Writes of states go to the dictionary of the session state and to no other.\<close>

lemma set_states_other_ref:
  "framework_states ctx (PIPELINE_STATE_KEY D) = Some r \<Longrightarrow> r' \<noteq> r \<Longrightarrow>
   set_states D ws ctx mem = (ctx', mem') \<Longrightarrow>
   ctx' = ctx \<and> dict_at mem' r' = dict_at mem r'"
proof (induction ws arbitrary: mem)
  case Nil
  then show ?case by simp
next
  case (Cons w ws)
  obtain c v where w: "w = (c, v)" by (cases w)
  let ?mem1 = "setitem mem r (path c) (state_name v)"
  from Cons.prems(1) have "set_state D c ctx mem v = (ctx, ?mem1)"
    by (rule set_state_existing)
  with Cons.prems(3) w have "set_states D ws ctx ?mem1 = (ctx', mem')"
    by simp
  from Cons.IH [OF Cons.prems(1,2) this]
  have "ctx' = ctx" and "dict_at mem' r' = dict_at ?mem1 r'"
    by simp_all
  with Cons.prems(2) show ?case by (simp add: setitem_def)
qed

text \<open>
  C8. On a session state nothing was written to, the reserved sub-mapping does not exist
  and \<^verbatim>\<open>_get_runtime_info\<close> builds no snapshot: the subscript
  \<^verbatim>\<open>ctx.framework_states[PIPELINE_STATE_KEY]\<close> raises \<^verbatim>\<open>KeyError\<close>.
\<close>

theorem runtime_info_fresh_context:
  "get_runtime_info str_decl service fresh_context empty_memory
     = Inl (KeyError (KStr ''PIPELINE''))"
  by (simp add: get_runtime_info_def str_decl_def fresh_context_def)

text \<open>
  C8, as amended. For every component and every session state whose reserved
  sub-mapping exists, \<^verbatim>\<open>_get_runtime_info\<close> returns a snapshot that holds the
  component's name and path (the string \<^verbatim>\<open>[None]\<close> for one that is unset), its timeout,
  its resolved asynchronous flag, and a copy of the whole sub-mapping in a dictionary of
  its own; no sequence of later writes of states to the session state changes that copy.
\<close>

theorem runtime_info_snapshot:
  fixes self :: "('f, 'a) PipelineComponent"
  assumes key: "framework_states ctx (PIPELINE_STATE_KEY D) = Some r"
      and alloc: "allocated ctx mem"
  shows "\<exists>info mem'.
           get_runtime_info D self ctx mem = Inr (info, mem')
         \<and> info_name info = (case name self of Some n \<Rightarrow> n | None \<Rightarrow> ''[None]'')
         \<and> info_path info = (case path self of Some p \<Rightarrow> p | None \<Rightarrow> ''[None]'')
         \<and> info_timeout info = timeout self
         \<and> info_asynchronous info = asynchronous self
         \<and> info_execution_state info \<noteq> r
         \<and> dict_at mem' (info_execution_state info) = dict_at mem r
         \<and> (\<forall>ws :: (('f, 'a) PipelineComponent \<times> ComponentExecutionState) list.
              dict_at (snd (set_states D ws ctx mem')) (info_execution_state info)
                = dict_at mem r)"
proof -
  let ?r' = "next_ref mem"
  let ?mem' = "mem\<lparr>dict_at := (dict_at mem)(?r' := dict_at mem r), next_ref := Suc ?r'\<rparr>"
  let ?info = "\<lparr>info_name = (case name self of Some n \<Rightarrow> n | None \<Rightarrow> ''[None]''),
                info_path = (case path self of Some p \<Rightarrow> p | None \<Rightarrow> ''[None]''),
                info_timeout = timeout self,
                info_asynchronous = asynchronous self,
                info_execution_state = ?r'\<rparr>"
  have run: "get_runtime_info D self ctx mem = Inr (?info, ?mem')"
    by (simp add: get_runtime_info_def key deepcopy_def)
  from allocated_ref [OF alloc key] have neq: "?r' \<noteq> r" by simp
  have later: "dict_at (snd (set_states D ws ctx ?mem')) ?r' = dict_at mem r"
    for ws :: "(('f, 'a) PipelineComponent \<times> ComponentExecutionState) list"
  proof -
    obtain ctx2 mem2 where s: "set_states D ws ctx ?mem' = (ctx2, mem2)"
      by (cases "set_states D ws ctx ?mem'")
    from set_states_other_ref [OF key neq s] have "dict_at mem2 ?r' = dict_at ?mem' ?r'"
      by simp
    with s show ?thesis by simp
  qed
  from run neq later show ?thesis by auto
qed

theorem runtime_info_snapshot_witness:
  "allocated running_context running_memory
   \<and> (\<exists>info mem'.
         get_runtime_info str_decl service running_context running_memory = Inr (info, mem')
       \<and> info_name info = ''a''
       \<and> info_path info = ''root.a''
       \<and> info_timeout info = Some 2
       \<and> info_asynchronous info
       \<and> dict_at
            (snd (set_states str_decl [(sync_service, FAILED), (service, RUNNING)]
                    running_context mem'))
            (info_execution_state info)
           = [Some ''root.b'' \<mapsto> ''FINISHED''])"
proof -
  have key: "framework_states running_context (PIPELINE_STATE_KEY str_decl) = Some 0"
    by (simp add: running_context_def str_decl_def)
  have alloc: "allocated running_context running_memory"
    by (simp add: allocated_def running_context_def running_memory_def)
  have d: "dict_at running_memory 0 = [Some ''root.b'' \<mapsto> ''FINISHED'']"
    by (simp add: running_memory_def)
  have a: "asynchronous service"
    by (simp add: asynchronous_def service_def)
  from runtime_info_snapshot [OF key alloc, of service]
  obtain info mem' where
    run: "get_runtime_info str_decl service running_context running_memory = Inr (info, mem')"
    and n: "info_name info = (case name service of Some n \<Rightarrow> n | None \<Rightarrow> ''[None]'')"
    and p: "info_path info = (case path service of Some p \<Rightarrow> p | None \<Rightarrow> ''[None]'')"
    and t: "info_timeout info = timeout service"
    and f: "info_asynchronous info = asynchronous service"
    and later: "\<forall>ws :: ((nat, unit) PipelineComponent \<times> ComponentExecutionState) list.
       dict_at (snd (set_states str_decl ws running_context mem')) (info_execution_state info)
         = dict_at running_memory 0"
    by blast
  from n have n': "info_name info = ''a''" by (simp add: service_def)
  from p have p': "info_path info = ''root.a''" by (simp add: service_def)
  from t have t': "info_timeout info = Some 2" by (simp add: service_def)
  from f a have f': "info_asynchronous info" by simp
  from later d have
    "dict_at
       (snd (set_states str_decl [(sync_service, FAILED), (service, RUNNING)]
               running_context mem'))
       (info_execution_state info)
      = [Some ''root.b'' \<mapsto> ''FINISHED'']"
    by metis
  with run n' p' t' f' have
    "get_runtime_info str_decl service running_context running_memory = Inr (info, mem')
     \<and> info_name info = ''a''
     \<and> info_path info = ''root.a''
     \<and> info_timeout info = Some 2
     \<and> info_asynchronous info
     \<and> dict_at
          (snd (set_states str_decl [(sync_service, FAILED), (service, RUNNING)]
                  running_context mem'))
          (info_execution_state info)
         = [Some ''root.b'' \<mapsto> ''FINISHED'']"
    by blast
  with alloc show ?thesis by blast
qed

end
